theory Spec2Isabelle
  imports Main
begin

section \<open>Values, elements, events and effects\<close>

text \<open>
  The development embeds \<^verbatim>\<open>components/switch/switch.tsx\<close>: the \<^verbatim>\<open>Switch\<close> component
  (\<^verbatim>\<open>SwitchFn\<close>) and its \<^verbatim>\<open>Switch.Group\<close> (\<^verbatim>\<open>GroupFn\<close>).

  A JavaScript value that may appear as a prop of a rendered element. Functions and
  refs are opaque: a function is known by the name it is bound to in the source.
\<close>

datatype jsval = Undefined | Bool bool | Num int | Str string | Fn string | RefVal

type_synonym props = "(string \<times> jsval) list"

text \<open>An optional string, as a prop value: \<^verbatim>\<open>undefined\<close> when absent.\<close>

fun optStr :: "string option \<Rightarrow> jsval" where
  "optStr None = Undefined"
| "optStr (Some s) = Str s"

datatype form = Form nat

text \<open>
  What the source reads of a DOM element: \<^verbatim>\<open>tagName\<close>, \<^verbatim>\<open>id\<close> and the result of
  \<^verbatim>\<open>closest('form')\<close> (the nearest enclosing form, if there is one).
\<close>

record element =
  tagName :: string
  elementId :: string
  closestForm :: "form option"

text \<open>
  A React synthetic event, as far as the handlers read it. A keyboard event extends it
  with \<^verbatim>\<open>key\<close>.
\<close>

record event =
  currentTarget :: element

record keyboardEvent = event +
  key :: string

text \<open>
  A callback supplied by the caller is opaque; calling it is an observable effect.
  A handler returns the effects it performs, in order, together with the component state:
  \<^verbatim>\<open>event.preventDefault()\<close>, a call of the caller's \<^verbatim>\<open>onChange\<close> with its argument,
  \<^verbatim>\<open>attemptSubmit(element)\<close>, \<^verbatim>\<open>element.click()\<close> and
  \<^verbatim>\<open>element.focus({ preventScroll })\<close>.
\<close>

datatype callback = Callback nat

datatype effect =
    PreventDefault
  | Call callback bool
  | AttemptSubmit element
  | Click element
  | Focus element bool

text \<open>\<^verbatim>\<open>f?.(v)\<close>: the optional call of a caller-supplied callback.\<close>

fun optCall :: "callback option \<Rightarrow> bool \<Rightarrow> effect list" where
  "optCall None v = []"
| "optCall (Some f) v = [Call f v]"

section \<open>The Switch\<close>

text \<open>
  The props \<^verbatim>\<open>SwitchFn\<close> destructures (lines 123 to 131); \<^verbatim>\<open>theirProps\<close> is the rest.
\<close>

record SwitchProps =
  idProp :: "string option"
  checked :: "bool option"
  defaultChecked :: "bool option"
  onChange :: "callback option"
  name :: "string option"
  valueProp :: "string option"
  theirProps :: props

text \<open>The destructuring default \<^verbatim>\<open>defaultChecked = false\<close> (line 126).\<close>

definition defaultCheckedOf :: "SwitchProps \<Rightarrow> bool" where
  "defaultCheckedOf p = (case defaultChecked p of None \<Rightarrow> False | Some b \<Rightarrow> b)"

text \<open>
  The state an instance of the Switch keeps between renders: the internal value that
  \<^verbatim>\<open>useControllable\<close> holds.
\<close>

record SwitchState =
  internalValue :: bool

text \<open>
  Modelled from the spec: the state that \<^verbatim>\<open>useControllable\<close> (see below) creates at the
  first render of an instance. By the specification \<^verbatim>\<open>defaultChecked\<close> is the initial value
  when Uncontrolled: the third argument of the call in line 140 is used here, at the
  first render, and nowhere else.
\<close>

definition initialState :: "bool \<Rightarrow> SwitchState" where
  "initialState defaultValue = \<lparr>internalValue = defaultValue\<rparr>"

text \<open>
  Modelled from the spec: the hook \<^verbatim>\<open>useControllable\<close> of \<^verbatim>\<open>hooks/use-controllable\<close> lies
  outside the file embedded here. The specification gives its contract: the
  component is Controlled when the caller supplies \<^verbatim>\<open>checked\<close> and Uncontrolled
  otherwise; \<^verbatim>\<open>onChange\<close> is invoked on every toggle, in Uncontrolled mode it also updates
  the internal state, in Controlled mode the caller alone is responsible for the state
  and the internal value is ignored. The specification fixes the ownership for the
  lifetime of an instance and calls a change of it an error of the caller; the model reads
  the ownership from the props of the render at hand, which is the same whenever the
  caller keeps to that. The result is the checked value of the render and the
  \<^verbatim>\<open>onChange\<close> to call.
\<close>

definition useControllable ::
  "bool option \<Rightarrow> callback option \<Rightarrow> SwitchState \<Rightarrow>
     bool \<times> (bool \<Rightarrow> SwitchState \<Rightarrow> effect list \<times> SwitchState)" where
  "useControllable controlledValue controlledOnChange st =
     (case controlledValue of
        Some v \<Rightarrow> (v, \<lambda>next s. (optCall controlledOnChange next, s))
      | None \<Rightarrow> (internalValue st,
                 \<lambda>next s. (optCall controlledOnChange next, s\<lparr>internalValue := next\<rparr>)))"

text \<open>
  The two results of line 140, at a render with props \<open>p\<close> in state \<open>st\<close>. The returned
  \<^verbatim>\<open>onChange\<close> is always a function, so \<^verbatim>\<open>onChange?.(...)\<close> of line 142 is a plain call.
  \<^verbatim>\<open>useEvent\<close> gives a handler that runs the closure of the latest committed render: a
  handler is a function of the props and of the state that render read. The handlers
  \<open>toggle\<close>, \<open>handleClick\<close> and \<open>handleKeyUp\<close> below are those of the render that read
  the state \<open>st\<close>, called while the state is still \<open>st\<close>.
\<close>

definition checkedOf :: "SwitchProps \<Rightarrow> SwitchState \<Rightarrow> bool" where
  "checkedOf p st = fst (useControllable (checked p) (onChange p) st)"

definition onChangeOf ::
  "SwitchProps \<Rightarrow> SwitchState \<Rightarrow> bool \<Rightarrow> SwitchState \<Rightarrow> effect list \<times> SwitchState" where
  "onChangeOf p st = snd (useControllable (checked p) (onChange p) st)"

text \<open>Line 142: \<^verbatim>\<open>toggle = () => onChange?.(!checked)\<close>.\<close>

definition toggle :: "SwitchProps \<Rightarrow> SwitchState \<Rightarrow> effect list \<times> SwitchState" where
  "toggle p st = onChangeOf p st (\<not> checkedOf p st) st"

text \<open>
  Lines 143 to 147. The predicate \<^verbatim>\<open>isDisabledReactIssue7711\<close> of \<^verbatim>\<open>utils/bugs\<close> is a
  parameter.
\<close>

definition handleClick ::
  "(element \<Rightarrow> bool) \<Rightarrow> SwitchProps \<Rightarrow> SwitchState \<Rightarrow> 'a event_scheme \<Rightarrow>
     effect list \<times> SwitchState" where
  "handleClick isDisabledReactIssue7711 p st ev =
     (if isDisabledReactIssue7711 (currentTarget ev) then ([PreventDefault], st)
      else (PreventDefault # fst (toggle p st), snd (toggle p st)))"

text \<open>
  Lines 148 to 155. The constants \<^verbatim>\<open>Keys.Space\<close> and \<^verbatim>\<open>Keys.Enter\<close> of
  \<^verbatim>\<open>components/keyboard\<close> are parameters.
\<close>

record Keys =
  Space :: string
  Enter :: string

definition handleKeyUp ::
  "Keys \<Rightarrow> SwitchProps \<Rightarrow> SwitchState \<Rightarrow> 'a keyboardEvent_scheme \<Rightarrow>
     effect list \<times> SwitchState" where
  "handleKeyUp keys p st ev =
     (if key ev = Space keys then (PreventDefault # fst (toggle p st), snd (toggle p st))
      else if key ev = Enter keys then ([AttemptSubmit (currentTarget ev)], st)
      else ([], st))"

text \<open>Line 158: \<^verbatim>\<open>handleKeyPress = (event) => event.preventDefault()\<close>.\<close>

definition handleKeyPress ::
  "SwitchProps \<Rightarrow> SwitchState \<Rightarrow> 'a keyboardEvent_scheme \<Rightarrow> effect list \<times> SwitchState" where
  "handleKeyPress p st ev = ([PreventDefault], st)"

text \<open>
  The same closures, called after the state has been updated and before the next render
  is committed. \<^verbatim>\<open>checked\<close> is a constant of a render (line 140) and \<^verbatim>\<open>toggle\<close> negates that
  constant (line 142): the closure of the render that read the state \<open>r\<close> calls
  \<^verbatim>\<open>onChange\<close> with the negation of the checked value of \<open>r\<close>, and the update acts on the
  state of now, \<open>s\<close>. With \<open>s = r\<close> these are \<open>toggle\<close> and \<open>handleClick\<close>.
\<close>

definition toggleAt ::
  "SwitchProps \<Rightarrow> SwitchState \<Rightarrow> SwitchState \<Rightarrow> effect list \<times> SwitchState" where
  "toggleAt p r s = onChangeOf p r (\<not> checkedOf p r) s"

definition handleClickAt ::
  "(element \<Rightarrow> bool) \<Rightarrow> SwitchProps \<Rightarrow> SwitchState \<Rightarrow> SwitchState \<Rightarrow> 'a event_scheme \<Rightarrow>
     effect list \<times> SwitchState" where
  "handleClickAt isDisabledReactIssue7711 p r s ev =
     (if isDisabledReactIssue7711 (currentTarget ev) then ([PreventDefault], s)
      else (PreventDefault # fst (toggleAt p r s), snd (toggleAt p r s)))"

text \<open>
  A mounted Switch: the state its latest committed render read, and its state now. The
  first render reads the initial state.
\<close>

record SwitchInstance =
  rendered :: SwitchState
  current :: SwitchState

definition firstRender :: "SwitchProps \<Rightarrow> SwitchInstance" where
  "firstRender p =
     \<lparr>rendered = initialState (defaultCheckedOf p),
      current = initialState (defaultCheckedOf p)\<rparr>"

text \<open>
  What happens to a mounted Switch with unchanged props: a click event, handled by the
  closure of the latest committed render, or the commit of a new render, which reads the
  state of now. A run gives the effects in order and the instance at its end.
\<close>

datatype 'a step = ClickEvent "'a event_scheme" | Render

fun run ::
  "(element \<Rightarrow> bool) \<Rightarrow> SwitchProps \<Rightarrow> 'a step list \<Rightarrow> SwitchInstance \<Rightarrow>
     effect list \<times> SwitchInstance" where
  "run isDisabledReactIssue7711 p [] i = ([], i)"
| "run isDisabledReactIssue7711 p (Render # steps) i =
     run isDisabledReactIssue7711 p steps (i\<lparr>rendered := current i\<rparr>)"
| "run isDisabledReactIssue7711 p (ClickEvent ev # steps) i =
     (fst (handleClickAt isDisabledReactIssue7711 p (rendered i) (current i) ev)
        @ fst (run isDisabledReactIssue7711 p steps
                 (i\<lparr>current :=
                      snd (handleClickAt isDisabledReactIssue7711 p (rendered i) (current i) ev)\<rparr>)),
      snd (run isDisabledReactIssue7711 p steps
             (i\<lparr>current :=
                  snd (handleClickAt isDisabledReactIssue7711 p (rendered i) (current i) ev)\<rparr>)))"

text \<open>The run in which a render is committed after every click.\<close>

definition clicksWithRenders :: "'a event_scheme list \<Rightarrow> 'a step list" where
  "clicksWithRenders evs = concat (map (\<lambda>ev. [ClickEvent ev, Render]) evs)"

text \<open>
  Lines 175 to 184: the effect that listens for the reset of the enclosing form. Its
  result is the listener it registers with \<^verbatim>\<open>d.addEventListener\<close>, if any: the form, the
  event name and the body. \<open>p\<close> is the props of the render whose effect runs (the
  dependencies \<^verbatim>\<open>internalSwitchRef\<close> and \<^verbatim>\<open>onChange\<close> are stable, so this is the first
  render); the body calls the stable \<^verbatim>\<open>onChange\<close>, which acts on the props \<open>p'\<close> and the
  state current when the form is reset. The comparison of line 179 is between the
  destructured \<^verbatim>\<open>defaultChecked\<close>, a boolean by line 126, and \<^verbatim>\<open>undefined\<close>.
\<close>

definition resetEffect ::
  "element option \<Rightarrow> SwitchProps \<Rightarrow>
     (form \<times> string \<times> (SwitchProps \<Rightarrow> SwitchState \<Rightarrow> effect list \<times> SwitchState)) option" where
  "resetEffect internalSwitchRef p =
     (case Option.bind internalSwitchRef closestForm of
        None \<Rightarrow> None
      | Some form \<Rightarrow>
          if Bool (defaultCheckedOf p) = Undefined then None
          else Some (form, ''reset'', \<lambda>p' s. onChangeOf p' s (defaultCheckedOf p) s))"

section \<open>The Group\<close>

text \<open>
  Lines 32 to 37: the context a Group shares (\<^verbatim>\<open>setSwitch\<close> is the setter below), and
  the state \<^verbatim>\<open>GroupFn\<close> keeps with \<^verbatim>\<open>useState\<close> (line 51).
\<close>

record StateDefinition =
  switch :: "element option"
  labelledby :: "string option"
  describedby :: "string option"

record GroupState =
  switchElement :: "element option"

definition setSwitchElement :: "element option \<Rightarrow> GroupState \<Rightarrow> GroupState" where
  "setSwitchElement el g = g\<lparr>switchElement := el\<rparr>"

text \<open>
  Lines 55 to 58. The identifiers that \<^verbatim>\<open>useLabels\<close> and \<^verbatim>\<open>useDescriptions\<close> return are
  parameters.
\<close>

definition contextOf :: "string option \<Rightarrow> string option \<Rightarrow> GroupState \<Rightarrow> StateDefinition" where
  "contextOf labelledbyId describedbyId g =
     \<lparr>switch = switchElement g, labelledby = labelledbyId, describedby = describedbyId\<rparr>"

text \<open>Line 68: \<^verbatim>\<open>htmlFor: context.switch?.id\<close>.\<close>

definition htmlFor :: "StateDefinition \<Rightarrow> string option" where
  "htmlFor c = map_option elementId (switch c)"

text \<open>Lines 69 to 76: the click handler handed to the labels of the Group.\<close>

definition labelOnClick :: "GroupState \<Rightarrow> 'a event_scheme \<Rightarrow> effect list \<times> GroupState" where
  "labelOnClick g ev =
     (case switchElement g of
        None \<Rightarrow> ([], g)
      | Some el \<Rightarrow>
          ((if tagName (currentTarget ev) = ''LABEL'' then [PreventDefault] else [])
             @ [Click el, Focus el True],
           g))"

section \<open>What the Switch renders\<close>

datatype HiddenFeatures = HiddenFeatures_Hidden

text \<open>
  A rendered node: the \<^verbatim>\<open>Hidden\<close> component with its \<^verbatim>\<open>features\<close> and further props, or
  what \<^verbatim>\<open>render\<close> returns: an element with its tag, its props and the slot.
\<close>

datatype vnode =
    HiddenNode HiddenFeatures props
  | ElementNode string props "bool option"

fun nodeProps :: "vnode \<Rightarrow> props" where
  "nodeProps (HiddenNode f ps) = ps"
| "nodeProps (ElementNode t ps sl) = ps"

fun hiddenInputs :: "vnode list \<Rightarrow> props list" where
  "hiddenInputs [] = []"
| "hiddenInputs (HiddenNode f ps # ns) = ps # hiddenInputs ns"
| "hiddenInputs (ElementNode t ps sl # ns) = hiddenInputs ns"

text \<open>
  Modelled from the spec: the function \<^verbatim>\<open>render\<close> of \<^verbatim>\<open>utils/render\<close> lies outside the
  file embedded here. The specification gives its contract: from the computed props, the
  props of the caller, an optional slot value, a default element type and a component
  name it produces the merged markup; the caller may override the element type, but the
  props the component controls are always the computed ones, and what the caller gives
  under those names is ignored. In the model the caller chooses the element type with
  the prop \<^verbatim>\<open>as\<close>, and a computed prop wins over a prop of the caller of the same name.
\<close>

definition render :: "props \<Rightarrow> props \<Rightarrow> bool option \<Rightarrow> string \<Rightarrow> vnode" where
  "render ours theirs slot defaultTag =
     ElementNode
       (case map_of theirs ''as'' of Some (Str t) \<Rightarrow> t | _ \<Rightarrow> defaultTag)
       (ours @ filter (\<lambda>kv. fst kv \<notin> set (map fst ours) \<and> fst kv \<noteq> ''as'') theirs)
       slot"

text \<open>
  Lines 161 to 173. The identifier of \<^verbatim>\<open>useId\<close> and the button type that
  \<^verbatim>\<open>useResolveButtonType\<close> resolves are parameters; the synchronised ref is opaque, and a
  handler stands under its name.
\<close>

definition ourProps ::
  "string \<Rightarrow> jsval \<Rightarrow> StateDefinition option \<Rightarrow> SwitchProps \<Rightarrow> SwitchState \<Rightarrow> props" where
  "ourProps internalId buttonType groupContext p st =
     [(''id'', Str (case idProp p of None \<Rightarrow> ''headlessui-switch-'' @ internalId | Some i \<Rightarrow> i)),
      (''ref'', RefVal),
      (''role'', Str ''switch''),
      (''type'', buttonType),
      (''tabIndex'', Num 0),
      (''aria-checked'', Bool (checkedOf p st)),
      (''aria-labelledby'', optStr (Option.bind groupContext labelledby)),
      (''aria-describedby'', optStr (Option.bind groupContext describedby)),
      (''onClick'', Fn ''handleClick''),
      (''onKeyUp'', Fn ''handleKeyUp''),
      (''onKeyPress'', Fn ''handleKeyPress'')]"

text \<open>
  Lines 186 to 204: the fragment \<^verbatim>\<open>SwitchFn\<close> returns, as the list of its nodes. The
  function \<^verbatim>\<open>compact\<close> of \<^verbatim>\<open>utils/render\<close> is a parameter. \<^verbatim>\<open>name != null\<close> holds for every
  string, the empty one too.
\<close>

definition SwitchFn ::
  "(props \<Rightarrow> props) \<Rightarrow> string \<Rightarrow> jsval \<Rightarrow> StateDefinition option \<Rightarrow> SwitchProps \<Rightarrow>
     SwitchState \<Rightarrow> vnode list" where
  "SwitchFn compact internalId buttonType groupContext p st =
     (case name p of
        None \<Rightarrow> []
      | Some n \<Rightarrow>
          if checkedOf p st
          then [HiddenNode HiddenFeatures_Hidden
                  (compact
                     [(''as'', Str ''input''),
                      (''type'', Str ''checkbox''),
                      (''hidden'', Bool True),
                      (''readOnly'', Bool True),
                      (''checked'', Bool (checkedOf p st)),
                      (''name'', Str n),
                      (''value'', optStr (valueProp p))])]
          else [])
     @ [render (ourProps internalId buttonType groupContext p st) (theirProps p)
          (Some (checkedOf p st)) ''button'']"

section \<open>Properties\<close>

subsection \<open>Basic facts about the controllable state\<close>

lemma optCall_no_submit: "AttemptSubmit e \<notin> set (optCall f v)"
  by (cases f) simp_all

lemma toggle_controlled:
  "checked p = Some c \<Longrightarrow> toggle p st = (optCall (onChange p) (\<not> c), st)"
  by (simp add: toggle_def onChangeOf_def checkedOf_def useControllable_def)

lemma toggle_uncontrolled:
  "checked p = None \<Longrightarrow>
     toggle p st = (optCall (onChange p) (\<not> internalValue st),
                    st\<lparr>internalValue := \<not> internalValue st\<rparr>)"
  by (simp add: toggle_def onChangeOf_def checkedOf_def useControllable_def)

subsection \<open>Clicks judged disabled\<close>

text \<open>
  C7. A click whose target is judged disabled by \<^verbatim>\<open>isDisabledReactIssue7711\<close> only
  prevents the default action: the handler returns at line 144, nothing is called
  (no \<^verbatim>\<open>onChange\<close>, no toggle), the state is the one before, and the handler has no
  failing outcome.
\<close>

theorem C7_disabled_click_swallowed:
  assumes "isDisabled (currentTarget ev)"
  shows "handleClick isDisabled p st ev = ([PreventDefault], st)"
  using assms by (simp add: handleClick_def)

theorem C7_disabled_click_swallowed_witness:
  "(\<lambda>e. tagName e = ''BUTTON'')
      (currentTarget \<lparr>currentTarget = \<lparr>tagName = ''BUTTON'', elementId = ''s'', closestForm = None\<rparr>\<rparr>)
   \<and> handleClick (\<lambda>e. tagName e = ''BUTTON'')
        \<lparr>idProp = None, checked = None, defaultChecked = None, onChange = Some (Callback 0),
         name = None, valueProp = None, theirProps = []\<rparr>
        \<lparr>internalValue = False\<rparr>
        \<lparr>currentTarget = \<lparr>tagName = ''BUTTON'', elementId = ''s'', closestForm = None\<rparr>\<rparr>
      = ([PreventDefault], \<lparr>internalValue = False\<rparr>)"
  using C7_disabled_click_swallowed
    [of "\<lambda>e. tagName e = ''BUTTON''"
        "\<lparr>currentTarget = \<lparr>tagName = ''BUTTON'', elementId = ''s'', closestForm = None\<rparr>\<rparr>"
        "\<lparr>idProp = None, checked = None, defaultChecked = None, onChange = Some (Callback 0),
         name = None, valueProp = None, theirProps = []\<rparr>"
        "\<lparr>internalValue = False\<rparr>"]
  by simp

subsection \<open>Key presses\<close>

text \<open>
  C10. The key-press handler prevents the default action for every key-press event,
  whichever key was pressed, and does nothing else: it calls no \<^verbatim>\<open>onChange\<close>, attempts
  no submit and leaves the state as it is. Toggling and submitting belong to the key-up
  handler.
\<close>

theorem C10_keypress_always_prevents_default:
  "handleKeyPress p st ev = ([PreventDefault], st)"
  by (simp add: handleKeyPress_def)


subsection \<open>Clicks on an Uncontrolled Switch\<close>

lemma handleClick_enabled:
  "\<not> isDisabled (currentTarget ev) \<Longrightarrow>
     handleClick isDisabled p st ev = (PreventDefault # fst (toggle p st), snd (toggle p st))"
  by (simp add: handleClick_def)

lemma checkedOf_controlled: "checked p = Some c \<Longrightarrow> checkedOf p st = c"
  by (simp add: checkedOf_def useControllable_def)

lemma checkedOf_uncontrolled: "checked p = None \<Longrightarrow> checkedOf p st = internalValue st"
  by (simp add: checkedOf_def useControllable_def)

lemma handleClickAt_same:
  "handleClickAt isDisabled p st st ev = handleClick isDisabled p st ev"
  by (simp add: handleClickAt_def handleClick_def toggleAt_def toggle_def)

lemma handleClickAt_uncontrolled:
  "checked p = None \<Longrightarrow> \<not> isDisabled (currentTarget ev) \<Longrightarrow>
     handleClickAt isDisabled p r s ev
       = (PreventDefault # optCall (onChange p) (\<not> internalValue r),
          s\<lparr>internalValue := \<not> internalValue r\<rparr>)"
  by (simp add: handleClickAt_def toggleAt_def onChangeOf_def checkedOf_def useControllable_def)

lemma run_clicksWithRenders:
  "checked p = None \<Longrightarrow> \<forall>ev\<in>set evs. \<not> isDisabled (currentTarget ev) \<Longrightarrow>
   rendered i = current i \<Longrightarrow>
     rendered (snd (run isDisabled p (clicksWithRenders evs) i))
       = current (snd (run isDisabled p (clicksWithRenders evs) i))
     \<and> internalValue (current (snd (run isDisabled p (clicksWithRenders evs) i)))
         = (internalValue (current i) \<noteq> odd (length evs))"
proof (induction evs arbitrary: i)
  case Nil
  then show ?case by (simp add: clicksWithRenders_def)
next
  case (Cons ev evs)
  let ?s = "(current i)\<lparr>internalValue := \<not> internalValue (current i)\<rparr>"
  let ?i = "\<lparr>rendered = ?s, current = ?s\<rparr>"
  have click: "handleClickAt isDisabled p (rendered i) (current i) ev
                 = (PreventDefault # optCall (onChange p) (\<not> internalValue (current i)), ?s)"
    using Cons.prems by (simp add: handleClickAt_uncontrolled)
  have unfold: "snd (run isDisabled p (clicksWithRenders (ev # evs)) i)
                  = snd (run isDisabled p (clicksWithRenders evs) ?i)"
    using click by (cases i) (simp add: clicksWithRenders_def)
  have "rendered (snd (run isDisabled p (clicksWithRenders evs) ?i))
          = current (snd (run isDisabled p (clicksWithRenders evs) ?i))
        \<and> internalValue (current (snd (run isDisabled p (clicksWithRenders evs) ?i)))
            = (internalValue (current ?i) \<noteq> odd (length evs))"
    using Cons.prems by (intro Cons.IH) simp_all
  then show ?case unfolding unfold by auto
qed

text \<open>
  C1, as stated, fails: the Switch is Uncontrolled and starts unchecked, and two clicks,
  neither judged disabled, arrive before a render is committed. Both are handled by the
  closure of the first render, both call \<^verbatim>\<open>onChange(true)\<close>, and after the next render the
  Switch is checked, though the number of clicks is even.
\<close>

theorem C1_clicks_without_render_counterexample:
  "run (\<lambda>e. tagName e = ''FIELDSET'')
      \<lparr>idProp = None, checked = None, defaultChecked = Some False,
       onChange = Some (Callback 0), name = None, valueProp = None, theirProps = []\<rparr>
      [ClickEvent \<lparr>currentTarget = \<lparr>tagName = ''BUTTON'', elementId = ''s'', closestForm = None\<rparr>\<rparr>,
       ClickEvent \<lparr>currentTarget = \<lparr>tagName = ''BUTTON'', elementId = ''s'', closestForm = None\<rparr>\<rparr>,
       Render]
      (firstRender
         \<lparr>idProp = None, checked = None, defaultChecked = Some False,
          onChange = Some (Callback 0), name = None, valueProp = None, theirProps = []\<rparr>)
     = ([PreventDefault, Call (Callback 0) True, PreventDefault, Call (Callback 0) True],
        \<lparr>rendered = \<lparr>internalValue = True\<rparr>, current = \<lparr>internalValue = True\<rparr>\<rparr>)
   \<and> checkedOf
        \<lparr>idProp = None, checked = None, defaultChecked = Some False,
         onChange = Some (Callback 0), name = None, valueProp = None, theirProps = []\<rparr>
        \<lparr>internalValue = True\<rparr>
       \<noteq> odd (length
            [\<lparr>currentTarget = \<lparr>tagName = ''BUTTON'', elementId = ''s'', closestForm = None\<rparr>\<rparr>,
             \<lparr>currentTarget = \<lparr>tagName = ''BUTTON'', elementId = ''s'', closestForm = None\<rparr>\<rparr>])"
  by (simp add: firstRender_def initialState_def defaultCheckedOf_def handleClickAt_def
      toggleAt_def onChangeOf_def checkedOf_def useControllable_def)

text \<open>
  C1, amended. An Uncontrolled Switch (no \<^verbatim>\<open>checked\<close> prop) whose \<^verbatim>\<open>defaultChecked\<close> is
  false, given or by default, starts unchecked. After any run of click events, none of
  them judged disabled by \<^verbatim>\<open>isDisabledReactIssue7711\<close>, with a render committed after
  every click, its checked value is true exactly when the number of clicks is odd: the
  value the last render read and the internal value agree on that. Every such click,
  handled by the closure of the render that read the state of now, prevents the default
  action and calls \<^verbatim>\<open>onChange(!checked)\<close>: the caller's callback, if there is one,
  receives the negated value, and the internal value becomes the negated value.
\<close>

theorem C1_clicks_with_renders_parity:
  assumes "checked p = None"
    and "defaultCheckedOf p = False"
    and "\<forall>ev\<in>set evs. \<not> isDisabled (currentTarget ev)"
  shows "checkedOf p (rendered (snd (run isDisabled p (clicksWithRenders evs) (firstRender p))))
           = odd (length evs)
         \<and> checkedOf p (current (snd (run isDisabled p (clicksWithRenders evs) (firstRender p))))
           = odd (length evs)
         \<and> (\<forall>ev\<in>set evs. \<forall>st.
              handleClickAt isDisabled p st st ev
                = (PreventDefault # optCall (onChange p) (\<not> checkedOf p st),
                   st\<lparr>internalValue := \<not> checkedOf p st\<rparr>))"
proof -
  have r: "rendered (firstRender p) = current (firstRender p)"
    by (simp add: firstRender_def)
  have i: "internalValue (current (firstRender p)) = False"
    using assms(2) by (simp add: firstRender_def initialState_def)
  note fin = run_clicksWithRenders [OF assms(1) assms(3) r]
  have cur: "checkedOf p (current (snd (run isDisabled p (clicksWithRenders evs) (firstRender p))))
               = odd (length evs)"
    using fin i assms(1) by (simp add: checkedOf_uncontrolled)
  have ren: "checkedOf p (rendered (snd (run isDisabled p (clicksWithRenders evs) (firstRender p))))
               = odd (length evs)"
    using fin cur by simp
  have each: "\<forall>ev\<in>set evs. \<forall>st.
          handleClickAt isDisabled p st st ev
            = (PreventDefault # optCall (onChange p) (\<not> checkedOf p st),
               st\<lparr>internalValue := \<not> checkedOf p st\<rparr>)"
    using assms by (simp add: handleClickAt_uncontrolled checkedOf_uncontrolled)
  from ren cur each show ?thesis by blast
qed

theorem C1_clicks_with_renders_parity_witness:
  "checked \<lparr>idProp = None, checked = None, defaultChecked = Some False,
            onChange = Some (Callback 0), name = None, valueProp = None, theirProps = []\<rparr> = None
   \<and> checkedOf
        \<lparr>idProp = None, checked = None, defaultChecked = Some False,
         onChange = Some (Callback 0), name = None, valueProp = None, theirProps = []\<rparr>
        (rendered (snd (run (\<lambda>e. tagName e = ''FIELDSET'')
               \<lparr>idProp = None, checked = None, defaultChecked = Some False,
                onChange = Some (Callback 0), name = None, valueProp = None, theirProps = []\<rparr>
               (clicksWithRenders
                  [\<lparr>currentTarget = \<lparr>tagName = ''BUTTON'', elementId = ''s'', closestForm = None\<rparr>\<rparr>,
                   \<lparr>currentTarget = \<lparr>tagName = ''BUTTON'', elementId = ''s'', closestForm = None\<rparr>\<rparr>,
                   \<lparr>currentTarget = \<lparr>tagName = ''BUTTON'', elementId = ''s'', closestForm = None\<rparr>\<rparr>])
               (firstRender
                  \<lparr>idProp = None, checked = None, defaultChecked = Some False,
                   onChange = Some (Callback 0), name = None, valueProp = None,
                   theirProps = []\<rparr>))))
       = True"
proof -
  let ?p = "\<lparr>idProp = None, checked = None, defaultChecked = Some False,
            onChange = Some (Callback 0), name = None, valueProp = None, theirProps = []\<rparr>"
  let ?ev = "\<lparr>currentTarget = \<lparr>tagName = ''BUTTON'', elementId = ''s'', closestForm = None\<rparr>\<rparr>"
  let ?dis = "\<lambda>e. tagName e = ''FIELDSET''"
  have a: "checked ?p = None" by simp
  have b: "defaultCheckedOf ?p = False" by (simp add: defaultCheckedOf_def)
  have c: "\<forall>ev\<in>set [?ev, ?ev, ?ev]. \<not> ?dis (currentTarget ev)" by simp
  have "checkedOf ?p (rendered (snd (run ?dis ?p (clicksWithRenders [?ev, ?ev, ?ev]) (firstRender ?p))))
          = odd (length [?ev, ?ev, ?ev])"
    using C1_clicks_with_renders_parity [OF a b c] by (rule conjunct1)
  then have "checkedOf ?p (rendered (snd (run ?dis ?p (clicksWithRenders [?ev, ?ev, ?ev]) (firstRender ?p))))
               = True"
    by simp
  with a show ?thesis by (rule conjI)
qed


subsection \<open>Clicks on a Controlled Switch\<close>

text \<open>
  C2, as stated, fails: on a Controlled Switch with \<^verbatim>\<open>checked = true\<close> and a callback
  \<^verbatim>\<open>onChange\<close>, a click whose target is judged disabled by \<^verbatim>\<open>isDisabledReactIssue7711\<close>
  only prevents the default action; \<^verbatim>\<open>onChange\<close> is not called.
\<close>

theorem C2_disabled_click_counterexample:
  "checked
      \<lparr>idProp = None, checked = Some True, defaultChecked = None,
       onChange = Some (Callback 7), name = None, valueProp = None, theirProps = []\<rparr>
     = Some True
   \<and> handleClick (\<lambda>e. tagName e = ''BUTTON'')
        \<lparr>idProp = None, checked = Some True, defaultChecked = None,
         onChange = Some (Callback 7), name = None, valueProp = None, theirProps = []\<rparr>
        \<lparr>internalValue = False\<rparr>
        \<lparr>currentTarget = \<lparr>tagName = ''BUTTON'', elementId = ''s'', closestForm = None\<rparr>\<rparr>
      = ([PreventDefault], \<lparr>internalValue = False\<rparr>)
   \<and> Call (Callback 7) False
       \<notin> set (fst (handleClick (\<lambda>e. tagName e = ''BUTTON'')
                  \<lparr>idProp = None, checked = Some True, defaultChecked = None,
                   onChange = Some (Callback 7), name = None, valueProp = None, theirProps = []\<rparr>
                  \<lparr>internalValue = False\<rparr>
                  \<lparr>currentTarget =
                     \<lparr>tagName = ''BUTTON'', elementId = ''s'', closestForm = None\<rparr>\<rparr>))"
  by (simp add: handleClick_def)

text \<open>
  C2, amended. On a Controlled Switch (the caller supplies \<^verbatim>\<open>checked = c\<close>) a click that is
  not judged disabled by \<^verbatim>\<open>isDisabledReactIssue7711\<close> prevents the default action and
  calls \<^verbatim>\<open>onChange(!c)\<close> once: with a callback \<open>f\<close> supplied the effects are exactly the
  prevented default and one call of \<open>f\<close> with the negated value. The state of the
  component is the one before, and the checked value rendered afterwards is still \<open>c\<close>;
  it is \<open>c'\<close> only once the caller renders with \<^verbatim>\<open>checked = c'\<close>.
\<close>

theorem C2_controlled_click:
  assumes "checked p = Some c"
    and "\<not> isDisabled (currentTarget ev)"
  shows "handleClick isDisabled p st ev = (PreventDefault # optCall (onChange p) (\<not> c), st)
         \<and> (onChange p = Some f \<longrightarrow>
              fst (handleClick isDisabled p st ev) = [PreventDefault, Call f (\<not> c)])
         \<and> checkedOf p (snd (handleClick isDisabled p st ev)) = c
         \<and> checkedOf (p\<lparr>checked := Some c'\<rparr>) (snd (handleClick isDisabled p st ev)) = c'"
  using assms
  by (simp add: handleClick_enabled toggle_controlled checkedOf_controlled)

theorem C2_controlled_click_witness:
  "fst (handleClick (\<lambda>e. tagName e = ''FIELDSET'')
          \<lparr>idProp = None, checked = Some True, defaultChecked = None,
           onChange = Some (Callback 7), name = None, valueProp = None, theirProps = []\<rparr>
          \<lparr>internalValue = False\<rparr>
          \<lparr>currentTarget = \<lparr>tagName = ''BUTTON'', elementId = ''s'', closestForm = None\<rparr>\<rparr>)
     = [PreventDefault, Call (Callback 7) False]
   \<and> checkedOf
        \<lparr>idProp = None, checked = Some True, defaultChecked = None,
         onChange = Some (Callback 7), name = None, valueProp = None, theirProps = []\<rparr>
        (snd (handleClick (\<lambda>e. tagName e = ''FIELDSET'')
          \<lparr>idProp = None, checked = Some True, defaultChecked = None,
           onChange = Some (Callback 7), name = None, valueProp = None, theirProps = []\<rparr>
          \<lparr>internalValue = False\<rparr>
          \<lparr>currentTarget = \<lparr>tagName = ''BUTTON'', elementId = ''s'', closestForm = None\<rparr>\<rparr>))
     = True"
proof -
  let ?p = "\<lparr>idProp = None, checked = Some True, defaultChecked = None,
            onChange = Some (Callback 7), name = None, valueProp = None, theirProps = []\<rparr>"
  let ?ev = "\<lparr>currentTarget = \<lparr>tagName = ''BUTTON'', elementId = ''s'', closestForm = None\<rparr>\<rparr>"
  let ?dis = "\<lambda>e. tagName e = ''FIELDSET''"
  have a: "checked ?p = Some True" by simp
  have b: "\<not> ?dis (currentTarget ?ev)" by simp
  have f: "onChange ?p = Some (Callback 7)" by simp
  note t = C2_controlled_click
    [where p = ?p and c = True and isDisabled = ?dis and ev = ?ev
       and st = "\<lparr>internalValue = False\<rparr>" and f = "Callback 7" and c' = True, OF a b]
  from t f have "fst (handleClick ?dis ?p \<lparr>internalValue = False\<rparr> ?ev)
                   = [PreventDefault, Call (Callback 7) (\<not> True)]"
    by blast
  moreover from t have "checkedOf ?p (snd (handleClick ?dis ?p \<lparr>internalValue = False\<rparr> ?ev)) = True"
    by blast
  ultimately show ?thesis by simp
qed

subsection \<open>Releasing a key\<close>

lemma toggle_result:
  "toggle p st =
     (optCall (onChange p) (\<not> checkedOf p st),
      case checked p of None \<Rightarrow> st\<lparr>internalValue := \<not> checkedOf p st\<rparr> | Some c \<Rightarrow> st)"
  by (cases "checked p")
     (simp_all add: toggle_controlled toggle_uncontrolled checkedOf_controlled checkedOf_uncontrolled)

text \<open>
  C3. Let the Space key and the Enter key be different keys. When the key released is
  Space, the handler prevents the default action and toggles: it calls \<^verbatim>\<open>onChange\<close> with
  the negated checked value (which flips the internal value of an Uncontrolled Switch),
  and attempts no submit. When the key released is Enter, the handler only attempts to
  submit from the element: it calls no \<^verbatim>\<open>onChange\<close> and the state is unchanged.
\<close>

theorem C3_keyup_space_toggles_enter_submits:
  assumes "Space keys \<noteq> Enter keys"
  shows "(key ev = Space keys \<longrightarrow>
            handleKeyUp keys p st ev
              = (PreventDefault # optCall (onChange p) (\<not> checkedOf p st),
                 case checked p of None \<Rightarrow> st\<lparr>internalValue := \<not> checkedOf p st\<rparr>
                                 | Some c \<Rightarrow> st)
            \<and> handleKeyUp keys p st ev = (PreventDefault # fst (toggle p st), snd (toggle p st))
            \<and> AttemptSubmit e \<notin> set (fst (handleKeyUp keys p st ev)))
         \<and> (key ev = Enter keys \<longrightarrow>
              handleKeyUp keys p st ev = ([AttemptSubmit (currentTarget ev)], st)
              \<and> Call f v \<notin> set (fst (handleKeyUp keys p st ev)))"
  using assms
  by (auto simp: handleKeyUp_def toggle_result optCall_no_submit)

theorem C3_keyup_space_toggles_enter_submits_witness:
  "handleKeyUp \<lparr>Space = '' '', Enter = ''Enter''\<rparr>
      \<lparr>idProp = None, checked = None, defaultChecked = None,
       onChange = Some (Callback 1), name = None, valueProp = None, theirProps = []\<rparr>
      \<lparr>internalValue = False\<rparr>
      \<lparr>currentTarget = \<lparr>tagName = ''BUTTON'', elementId = ''s'', closestForm = Some (Form 0)\<rparr>,
       key = '' ''\<rparr>
     = ([PreventDefault, Call (Callback 1) True], \<lparr>internalValue = True\<rparr>)
   \<and> handleKeyUp \<lparr>Space = '' '', Enter = ''Enter''\<rparr>
      \<lparr>idProp = None, checked = None, defaultChecked = None,
       onChange = Some (Callback 1), name = None, valueProp = None, theirProps = []\<rparr>
      \<lparr>internalValue = False\<rparr>
      \<lparr>currentTarget = \<lparr>tagName = ''BUTTON'', elementId = ''s'', closestForm = Some (Form 0)\<rparr>,
       key = ''Enter''\<rparr>
     = ([AttemptSubmit \<lparr>tagName = ''BUTTON'', elementId = ''s'', closestForm = Some (Form 0)\<rparr>],
        \<lparr>internalValue = False\<rparr>)"
proof -
  let ?keys = "\<lparr>Space = '' '', Enter = ''Enter''\<rparr>"
  let ?p = "\<lparr>idProp = None, checked = None, defaultChecked = None,
            onChange = Some (Callback 1), name = None, valueProp = None, theirProps = []\<rparr>"
  let ?el = "\<lparr>tagName = ''BUTTON'', elementId = ''s'', closestForm = Some (Form 0)\<rparr>"
  let ?st = "\<lparr>internalValue = False\<rparr>"
  have k: "Space ?keys \<noteq> Enter ?keys" by simp
  have s: "key \<lparr>currentTarget = ?el, key = '' ''\<rparr> = Space ?keys" by simp
  have e: "key \<lparr>currentTarget = ?el, key = ''Enter''\<rparr> = Enter ?keys" by simp
  from C3_keyup_space_toggles_enter_submits [OF k, of "\<lparr>currentTarget = ?el, key = '' ''\<rparr>" ?p ?st] s
  have "handleKeyUp ?keys ?p ?st \<lparr>currentTarget = ?el, key = '' ''\<rparr>
          = (PreventDefault # optCall (onChange ?p) (\<not> checkedOf ?p ?st),
             case checked ?p of None \<Rightarrow> ?st\<lparr>internalValue := \<not> checkedOf ?p ?st\<rparr> | Some c \<Rightarrow> ?st)"
    by blast
  then have 1: "handleKeyUp ?keys ?p ?st \<lparr>currentTarget = ?el, key = '' ''\<rparr>
          = ([PreventDefault, Call (Callback 1) True], \<lparr>internalValue = True\<rparr>)"
    by (simp add: checkedOf_uncontrolled)
  from C3_keyup_space_toggles_enter_submits [OF k, of "\<lparr>currentTarget = ?el, key = ''Enter''\<rparr>" ?p ?st] e
  have 2: "handleKeyUp ?keys ?p ?st \<lparr>currentTarget = ?el, key = ''Enter''\<rparr>
          = ([AttemptSubmit (currentTarget \<lparr>currentTarget = ?el, key = ''Enter''\<rparr>)], ?st)"
    by blast
  from 1 2 show ?thesis by simp
qed

subsection \<open>The reset of the enclosing form\<close>

text \<open>
  The test of line 179 never holds, whatever the props: line 126 has replaced an absent
  \<^verbatim>\<open>defaultChecked\<close> by \<^verbatim>\<open>false\<close>. The listener is registered whenever there is a form.
\<close>

lemma reset_guard_never_returns: "Bool (defaultCheckedOf p) \<noteq> Undefined"
  by simp

lemma resetEffect_registers:
  "closestForm el = Some fm \<Longrightarrow>
     resetEffect (Some el) p = Some (fm, ''reset'', \<lambda>p' s. onChangeOf p' s (defaultCheckedOf p) s)"
  by (simp add: resetEffect_def)

text \<open>
  C4. A Controlled Switch with \<^verbatim>\<open>checked = true\<close>, a callback \<^verbatim>\<open>onChange\<close> and no
  \<^verbatim>\<open>defaultChecked\<close>, inside a form: the effect registers a reset listener, and when the
  form is reset the listener calls the caller's \<^verbatim>\<open>onChange\<close> with \<^verbatim>\<open>false\<close>. The claim that
  a reset calls no \<^verbatim>\<open>onChange\<close> when \<^verbatim>\<open>defaultChecked\<close> was never supplied does not hold of
  the code.
\<close>

theorem C4_reset_without_defaultChecked_calls_onChange:
  "(case resetEffect
           (Some \<lparr>tagName = ''BUTTON'', elementId = ''s'', closestForm = Some (Form 0)\<rparr>)
           \<lparr>idProp = None, checked = Some True, defaultChecked = None,
            onChange = Some (Callback 0), name = None, valueProp = None, theirProps = []\<rparr>
    of None \<Rightarrow> []
     | Some (fm, evName, listener) \<Rightarrow>
         fst (listener
                \<lparr>idProp = None, checked = Some True, defaultChecked = None,
                 onChange = Some (Callback 0), name = None, valueProp = None, theirProps = []\<rparr>
                \<lparr>internalValue = False\<rparr>))
     = [Call (Callback 0) False]"
  by (simp add: resetEffect_def onChangeOf_def useControllable_def defaultCheckedOf_def)


subsection \<open>Clicks on a label of the Group\<close>

text \<open>
  C5, as stated, fails: with a Switch registered, a click on a label rendered as a
  \<^verbatim>\<open>span\<close>, which is not a native label element, does not prevent the default action.
\<close>

theorem C5_label_click_non_native_counterexample:
  "tagName (currentTarget
      \<lparr>currentTarget = \<lparr>tagName = ''SPAN'', elementId = ''l'', closestForm = None\<rparr>\<rparr>) \<noteq> ''LABEL''
   \<and> switchElement
        \<lparr>switchElement = Some \<lparr>tagName = ''BUTTON'', elementId = ''s'', closestForm = None\<rparr>\<rparr>
       \<noteq> None
   \<and> PreventDefault \<notin> set (fst (labelOnClick
        \<lparr>switchElement = Some \<lparr>tagName = ''BUTTON'', elementId = ''s'', closestForm = None\<rparr>\<rparr>
        \<lparr>currentTarget = \<lparr>tagName = ''SPAN'', elementId = ''l'', closestForm = None\<rparr>\<rparr>))"
  by (simp add: labelOnClick_def)

text \<open>
  C5, amended. With a Switch registered, a click on a label prevents the label's default
  action exactly when the label is a native label element (\<^verbatim>\<open>tagName\<close> is \<^verbatim>\<open>LABEL\<close>); then,
  in both cases, the registered element is clicked, exactly once, and focused without
  scrolling. The state of the Group is unchanged.
\<close>

theorem C5_label_click_delegates:
  assumes "switchElement g = Some el"
  shows "fst (labelOnClick g ev)
           = (if tagName (currentTarget ev) = ''LABEL'' then [PreventDefault] else [])
               @ [Click el, Focus el True]
         \<and> (PreventDefault \<in> set (fst (labelOnClick g ev))
              \<longleftrightarrow> tagName (currentTarget ev) = ''LABEL'')
         \<and> filter (\<lambda>x. case x of Click e \<Rightarrow> True | _ \<Rightarrow> False) (fst (labelOnClick g ev))
              = [Click el]
         \<and> snd (labelOnClick g ev) = g"
  using assms by (simp add: labelOnClick_def)

theorem C5_label_click_delegates_witness:
  "labelOnClick
      \<lparr>switchElement = Some \<lparr>tagName = ''BUTTON'', elementId = ''s'', closestForm = None\<rparr>\<rparr>
      \<lparr>currentTarget = \<lparr>tagName = ''LABEL'', elementId = ''l'', closestForm = None\<rparr>\<rparr>
     = ([PreventDefault,
         Click \<lparr>tagName = ''BUTTON'', elementId = ''s'', closestForm = None\<rparr>,
         Focus \<lparr>tagName = ''BUTTON'', elementId = ''s'', closestForm = None\<rparr> True],
        \<lparr>switchElement = Some \<lparr>tagName = ''BUTTON'', elementId = ''s'', closestForm = None\<rparr>\<rparr>)"
proof -
  let ?el = "\<lparr>tagName = ''BUTTON'', elementId = ''s'', closestForm = None\<rparr>"
  let ?g = "\<lparr>switchElement = Some ?el\<rparr>"
  let ?ev = "\<lparr>currentTarget = \<lparr>tagName = ''LABEL'', elementId = ''l'', closestForm = None\<rparr>\<rparr>"
  have a: "switchElement ?g = Some ?el" by simp
  note t = C5_label_click_delegates [where g = ?g and el = ?el and ev = ?ev, OF a]
  from t have "fst (labelOnClick ?g ?ev)
                 = (if tagName (currentTarget ?ev) = ''LABEL'' then [PreventDefault] else [])
                     @ [Click ?el, Focus ?el True]"
    by blast
  moreover from t have "snd (labelOnClick ?g ?ev) = ?g" by blast
  ultimately show ?thesis by (simp add: prod_eq_iff)
qed

text \<open>
  C8. With no Switch registered (the shared element reference is null) the click
  handler of the label does nothing: it prevents no default, clicks and focuses nothing,
  and the state of the Group is unchanged.
\<close>

theorem C8_label_click_without_switch:
  assumes "switchElement g = None"
  shows "labelOnClick g ev = ([], g)"
  using assms by (simp add: labelOnClick_def)

theorem C8_label_click_without_switch_witness:
  "switchElement \<lparr>switchElement = None\<rparr> = None
   \<and> labelOnClick \<lparr>switchElement = None\<rparr>
        \<lparr>currentTarget = \<lparr>tagName = ''LABEL'', elementId = ''l'', closestForm = None\<rparr>\<rparr>
      = ([], \<lparr>switchElement = None\<rparr>)"
proof -
  have a: "switchElement \<lparr>switchElement = None\<rparr> = None" by simp
  from a C8_label_click_without_switch [OF a] show ?thesis by (rule conjI)
qed

subsection \<open>The hidden input\<close>

lemma hiddenInputs_append: "hiddenInputs (xs @ ys) = hiddenInputs xs @ hiddenInputs ys"
  by (induction xs rule: hiddenInputs.induct) simp_all

text \<open>
  C6. The Switch renders a hidden input exactly when \<^verbatim>\<open>name\<close> is supplied and the checked
  value is true. It is then the only one, and the props it is built from (through
  \<^verbatim>\<open>compact\<close>) are: an \<^verbatim>\<open>input\<close> of type \<^verbatim>\<open>checkbox\<close>, hidden, read-only, with
  \<^verbatim>\<open>checked = true\<close>, the given name and the given value. With the checked value false, or
  without a name, there is none: it is never rendered with \<^verbatim>\<open>checked = false\<close>.
\<close>

theorem C6_hidden_input_iff_name_and_checked:
  "hiddenInputs (SwitchFn compact internalId buttonType groupContext p st)
     = (case name p of
          None \<Rightarrow> []
        | Some n \<Rightarrow>
            if checkedOf p st
            then [compact
                    [(''as'', Str ''input''),
                     (''type'', Str ''checkbox''),
                     (''hidden'', Bool True),
                     (''readOnly'', Bool True),
                     (''checked'', Bool True),
                     (''name'', Str n),
                     (''value'', optStr (valueProp p))]]
            else [])"
  by (simp add: SwitchFn_def render_def hiddenInputs_append split: option.splits)

theorem C6_hidden_input_iff_name_and_checked_witness:
  "hiddenInputs (SwitchFn (filter (\<lambda>kv. snd kv \<noteq> Undefined)) ''1'' (Str ''button'') None
      \<lparr>idProp = None, checked = Some True, defaultChecked = None, onChange = None,
       name = Some ''consent'', valueProp = None, theirProps = []\<rparr>
      \<lparr>internalValue = False\<rparr>)
     = [[(''as'', Str ''input''), (''type'', Str ''checkbox''), (''hidden'', Bool True),
         (''readOnly'', Bool True), (''checked'', Bool True), (''name'', Str ''consent'')]]
   \<and> hiddenInputs (SwitchFn (filter (\<lambda>kv. snd kv \<noteq> Undefined)) ''1'' (Str ''button'') None
      \<lparr>idProp = None, checked = Some False, defaultChecked = None, onChange = None,
       name = Some ''consent'', valueProp = None, theirProps = []\<rparr>
      \<lparr>internalValue = False\<rparr>)
     = []"
  using
    C6_hidden_input_iff_name_and_checked
      [of "filter (\<lambda>kv. snd kv \<noteq> Undefined)" "''1''" "Str ''button''" None
          "\<lparr>idProp = None, checked = Some True, defaultChecked = None, onChange = None,
            name = Some ''consent'', valueProp = None, theirProps = []\<rparr>"
          "\<lparr>internalValue = False\<rparr>"]
    C6_hidden_input_iff_name_and_checked
      [of "filter (\<lambda>kv. snd kv \<noteq> Undefined)" "''1''" "Str ''button''" None
          "\<lparr>idProp = None, checked = Some False, defaultChecked = None, onChange = None,
            name = Some ''consent'', valueProp = None, theirProps = []\<rparr>"
          "\<lparr>internalValue = False\<rparr>"]
  by (simp add: checkedOf_def useControllable_def)

subsection \<open>The attributes the Switch controls\<close>

lemma render_keeps_ours:
  "k \<in> set (map fst ours) \<Longrightarrow>
     filter (\<lambda>kv. fst kv = k) (nodeProps (render ours theirs slot tag))
       = filter (\<lambda>kv. fst kv = k) ours"
proof -
  assume k: "k \<in> set (map fst ours)"
  have "filter (\<lambda>kv. fst kv = k)
          (filter (\<lambda>kv. fst kv \<notin> set (map fst ours) \<and> fst kv \<noteq> ''as'') theirs) = []"
    using k by (auto simp: filter_empty_conv)
  then show ?thesis by (simp add: render_def)
qed

text \<open>
  C9. Whatever props the caller gives, the element the Switch renders has exactly one
  prop under each of the names \<^verbatim>\<open>role\<close>, \<^verbatim>\<open>aria-checked\<close>, \<^verbatim>\<open>aria-labelledby\<close>,
  \<^verbatim>\<open>aria-describedby\<close> and \<^verbatim>\<open>tabIndex\<close>, and it is the computed one: the role
  \<^verbatim>\<open>switch\<close>, the current checked value, the identifiers of the enclosing Group
  (\<^verbatim>\<open>undefined\<close> without a Group) and the tab index 0.
\<close>

theorem C9_controlled_attributes_are_computed:
  "filter (\<lambda>kv. fst kv = ''role'')
       (nodeProps (last (SwitchFn compact internalId buttonType groupContext p st)))
     = [(''role'', Str ''switch'')]
   \<and> filter (\<lambda>kv. fst kv = ''aria-checked'')
       (nodeProps (last (SwitchFn compact internalId buttonType groupContext p st)))
     = [(''aria-checked'', Bool (checkedOf p st))]
   \<and> filter (\<lambda>kv. fst kv = ''aria-labelledby'')
       (nodeProps (last (SwitchFn compact internalId buttonType groupContext p st)))
     = [(''aria-labelledby'', optStr (Option.bind groupContext labelledby))]
   \<and> filter (\<lambda>kv. fst kv = ''aria-describedby'')
       (nodeProps (last (SwitchFn compact internalId buttonType groupContext p st)))
     = [(''aria-describedby'', optStr (Option.bind groupContext describedby))]
   \<and> filter (\<lambda>kv. fst kv = ''tabIndex'')
       (nodeProps (last (SwitchFn compact internalId buttonType groupContext p st)))
     = [(''tabIndex'', Num 0)]"
proof -
  let ?ours = "ourProps internalId buttonType groupContext p st"
  have l: "last (SwitchFn compact internalId buttonType groupContext p st)
             = render ?ours (theirProps p) (Some (checkedOf p st)) ''button''"
    by (simp add: SwitchFn_def)
  have ks: "''role'' \<in> set (map fst ?ours)" "''aria-checked'' \<in> set (map fst ?ours)"
    "''aria-labelledby'' \<in> set (map fst ?ours)" "''aria-describedby'' \<in> set (map fst ?ours)"
    "''tabIndex'' \<in> set (map fst ?ours)"
    by (simp_all add: ourProps_def)
  show ?thesis
    unfolding l render_keeps_ours [OF ks(1)] render_keeps_ours [OF ks(2)]
      render_keeps_ours [OF ks(3)] render_keeps_ours [OF ks(4)] render_keeps_ours [OF ks(5)]
    by (simp add: ourProps_def)
qed

theorem C9_controlled_attributes_are_computed_witness:
  "filter (\<lambda>kv. fst kv = ''role'')
       (nodeProps (last (SwitchFn (filter (\<lambda>kv. snd kv \<noteq> Undefined)) ''1'' (Str ''button'')
          (Some \<lparr>switch = None, labelledby = Some ''label-2'', describedby = None\<rparr>)
          \<lparr>idProp = None, checked = Some True, defaultChecked = None, onChange = None,
           name = None, valueProp = None,
           theirProps = [(''role'', Str ''checkbox''), (''tabIndex'', Num (- 1)),
                         (''className'', Str ''toggle'')]\<rparr>
          \<lparr>internalValue = False\<rparr>)))
     = [(''role'', Str ''switch'')]"
  using C9_controlled_attributes_are_computed
      [of "filter (\<lambda>kv. snd kv \<noteq> Undefined)" "''1''" "Str ''button''"
          "Some \<lparr>switch = None, labelledby = Some ''label-2'', describedby = None\<rparr>"
          "\<lparr>idProp = None, checked = Some True, defaultChecked = None, onChange = None,
            name = None, valueProp = None,
            theirProps = [(''role'', Str ''checkbox''), (''tabIndex'', Num (- 1)),
                          (''className'', Str ''toggle'')]\<rparr>"
          "\<lparr>internalValue = False\<rparr>"]
  by blast

end
